theory Spec2Isabelle
  imports Main "HOL-Library.AList"
begin

section \<open>Data model of \<open>web/app/models.py\<close>\<close>

text \<open>
  Timestamps (\<open>datetime\<close> values) are natural numbers; a nullable column is an
  \<open>option\<close>. Every call of \<open>datetime.now(timezone.utc)\<close> is an explicit argument of
  the operation that makes it. The columns \<open>created_at\<close> and \<open>updated_at\<close>, which the
  ORM fills in by itself, are not modelled.
\<close>

type_synonym timestamp = nat

datatype command_status = PENDING | SENT | ABORTED

text \<open>The values handed to \<open>json.dumps\<close>: strings, integers, booleans and dicts.\<close>

datatype json = JStr string | JInt int | JBool bool | JObj "(string \<times> json) list"

text \<open>
  \<open>class Printer(models.Model)\<close>. The primary key \<open>id\<close> is the field \<open>printer_id\<close>,
  the foreign key \<open>user\<close> is the key of the owning user, \<open>action_on_failure\<close> is the
  stored string.
\<close>

record printer =
  printer_id :: nat
  name :: string
  auth_token :: string
  user :: nat
  current_print_filename :: "string option"
  current_print_started_at :: "timestamp option"
  current_print_alerted_at :: "timestamp option"
  alert_acknowledged_at :: "timestamp option"
  action_on_failure :: string
  tools_off_on_pause :: bool
  bed_off_on_pause :: bool

text \<open>
  \<open>class PrinterCommand(models.Model)\<close>. The foreign key \<open>printer\<close> holds the
  printer's primary key. The column \<open>command\<close> holds the text
  \<open>json.dumps({'cmd': command, 'args': args})\<close>; the model keeps the JSON value that
  is serialised.
\<close>

record printer_command =
  command_id :: nat
  printer :: nat
  command :: json
  status :: command_status

text \<open>
  The database: the rows of \<open>Printer\<close> by primary key, the rows of \<open>PrinterCommand\<close>
  in creation order, the next automatic primary key of \<open>PrinterCommand\<close>, and the number
  of \<open>Printer.save()\<close> calls executed so far.
\<close>

record db =
  printer_rows :: "nat \<rightharpoonup> printer"
  commands :: "printer_command list"
  next_command_id :: nat
  printer_saves :: nat

section \<open>Operations of \<open>Printer\<close>\<close>

text \<open>\<open>self.save()\<close>: the in-memory object is written to its row.\<close>

definition save :: "printer \<Rightarrow> db \<Rightarrow> db" where
  "save p d = d\<lparr>printer_rows := (printer_rows d)(printer_id p \<mapsto> p),
                printer_saves := Suc (printer_saves d)\<rparr>"

text \<open>
  \<open>PrinterCommand.objects.filter(printer=self, status=PrinterCommand.PENDING)
     .update(status=PrinterCommand.ABORTED)\<close>
\<close>

definition abort_pending :: "nat \<Rightarrow> printer_command list \<Rightarrow> printer_command list" where
  "abort_pending pid cs =
     map (\<lambda>c. if printer c = pid \<and> status c = PENDING then c\<lparr>status := ABORTED\<rparr> else c) cs"

text \<open>
  \<open>PrinterCommand.objects.create(printer=self,
     command=json.dumps({'cmd': command, 'args': args}), status=PrinterCommand.PENDING)\<close>
\<close>

definition new_command :: "nat \<Rightarrow> nat \<Rightarrow> string \<Rightarrow> (string \<times> json) list \<Rightarrow> printer_command" where
  "new_command cid pid cmd args =
     \<lparr>command_id = cid, printer = pid,
      command = JObj [(''cmd'', JStr cmd), (''args'', JObj args)],
      status = PENDING\<rparr>"

definition create_command :: "nat \<Rightarrow> string \<Rightarrow> (string \<times> json) list \<Rightarrow> db \<Rightarrow> db" where
  "create_command pid cmd args d =
     d\<lparr>commands := commands d @ [new_command (next_command_id d) pid cmd args],
       next_command_id := Suc (next_command_id d)\<rparr>"

text \<open>
  \<open>def queue_octoprint_command(self, command, args={}, abort_existing=True)\<close>
\<close>

definition queue_octoprint_command ::
  "printer \<Rightarrow> string \<Rightarrow> (string \<times> json) list \<Rightarrow> bool \<Rightarrow> db \<Rightarrow> db" where
  "queue_octoprint_command self cmd args abort_existing d =
     create_command (printer_id self) cmd args
       (if abort_existing
        then d\<lparr>commands := abort_pending (printer_id self) (commands d)\<rparr>
        else d)"

text \<open>\<open>def set_current_print(self, filename)\<close>\<close>

definition set_current_print ::
  "timestamp \<Rightarrow> string option \<Rightarrow> printer \<times> db \<Rightarrow> printer \<times> db" where
  "set_current_print now filename s =
     (case s of (self, d) \<Rightarrow>
        if filename \<noteq> current_print_filename self then
          let self' = self\<lparr>current_print_filename := filename,
                            current_print_started_at := Some now,
                            current_print_alerted_at := None,
                            alert_acknowledged_at := None\<rparr>
          in (self', save self' d)
        else (self, d))"

text \<open>\<open>def unset_current_print(self)\<close>\<close>

definition unset_current_print :: "printer \<times> db \<Rightarrow> printer \<times> db" where
  "unset_current_print s =
     (case s of (self, d) \<Rightarrow>
        if current_print_filename self \<noteq> None then
          let self' = self\<lparr>current_print_filename := None,
                            current_print_started_at := None,
                            current_print_alerted_at := None,
                            alert_acknowledged_at := None\<rparr>
          in (self', save self' d)
        else (self, d))"

text \<open>\<open>def set_alert(self)\<close>\<close>

definition set_alert :: "timestamp \<Rightarrow> printer \<times> db \<Rightarrow> printer \<times> db" where
  "set_alert now s =
     (case s of (self, d) \<Rightarrow>
        let self' = self\<lparr>current_print_alerted_at := Some now,
                          alert_acknowledged_at := None\<rparr>
        in (self', save self' d))"

text \<open>\<open>def clear_alert(self)\<close>\<close>

definition clear_alert :: "timestamp \<Rightarrow> printer \<times> db \<Rightarrow> printer \<times> db" where
  "clear_alert now s =
     (case s of (self, d) \<Rightarrow>
        let self' = self\<lparr>current_print_alerted_at := None,
                          alert_acknowledged_at := Some now\<rparr>
        in (self', save self' d))"

text \<open>
  \<open>def resume_print(self, mute_alert=False)\<close>. The first timestamp is the clock read
  by \<open>resume_print\<close> itself, the second the one read inside \<open>clear_alert\<close>. The call
  \<open>self.queue_octoprint_command('restore_temps')\<close> takes the defaults \<open>args={}\<close> and
  \<open>abort_existing=True\<close>.
\<close>

definition resume_print ::
  "timestamp \<Rightarrow> timestamp \<Rightarrow> bool \<Rightarrow> printer \<times> db \<Rightarrow> printer \<times> db" where
  "resume_print now now' mute_alert s =
     (case s of (self, d) \<Rightarrow>
        let self1 = self\<lparr>alert_acknowledged_at := Some now\<rparr>;
            d1 = save self1 d;
            (self2, d2) = (if \<not> mute_alert then clear_alert now' (self1, d1) else (self1, d1));
            d3 = queue_octoprint_command self2 ''restore_temps'' [] True d2;
            d4 = queue_octoprint_command self2 ''resume'' [] False d3
        in (self2, d4))"

text \<open>\<open>def pause_print(self)\<close>\<close>

definition pause_print :: "printer \<times> db \<Rightarrow> printer \<times> db" where
  "pause_print s =
     (case s of (self, d) \<Rightarrow> (self, queue_octoprint_command self ''pause'' [] True d))"

text \<open>\<open>def pause_print_on_failure(self)\<close>\<close>

definition pause_print_on_failure :: "printer \<times> db \<Rightarrow> printer \<times> db" where
  "pause_print_on_failure s =
     (case s of (self, d) \<Rightarrow>
        let d1 = queue_octoprint_command self ''pause'' [] True d;
            d2 = (if tools_off_on_pause self
                  then queue_octoprint_command self ''set_temps''
                         [(''heater'', JStr ''tools''), (''target'', JInt 0), (''save'', JBool True)]
                         False d1
                  else d1);
            d3 = (if bed_off_on_pause self
                  then queue_octoprint_command self ''set_temps''
                         [(''heater'', JStr ''bed''), (''target'', JInt 0), (''save'', JBool True)]
                         False d2
                  else d2)
        in (self, d3))"

text \<open>\<open>def cancel_print(self)\<close>\<close>

definition cancel_print :: "timestamp \<Rightarrow> printer \<times> db \<Rightarrow> printer \<times> db" where
  "cancel_print now s =
     (case s of (self, d) \<Rightarrow>
        let self' = self\<lparr>alert_acknowledged_at := Some now\<rparr>;
            d1 = save self' d
        in (self', queue_octoprint_command self' ''cancel'' [] True d1))"

text \<open>The commands of one printer that are still \<open>PENDING\<close>, in creation order.\<close>

definition pending_of :: "nat \<Rightarrow> printer_command list \<Rightarrow> printer_command list" where
  "pending_of pid cs = filter (\<lambda>c. printer c = pid \<and> status c = PENDING) cs"

section \<open>Reachable printer states\<close>

text \<open>
  The public operations of \<open>Printer\<close>, each with the clock values it reads, and the
  states reached from a printer that tracks no print (the four nullable columns are
  \<open>NULL\<close>, as they are when a row is created without them).
\<close>

datatype printer_op =
    Set_current_print timestamp "string option"
  | Unset_current_print
  | Resume_print timestamp timestamp bool
  | Pause_print
  | Pause_print_on_failure
  | Cancel_print timestamp
  | Set_alert timestamp
  | Clear_alert timestamp

fun apply_op :: "printer_op \<Rightarrow> printer \<times> db \<Rightarrow> printer \<times> db" where
  "apply_op (Set_current_print now filename) s = set_current_print now filename s"
| "apply_op Unset_current_print s = unset_current_print s"
| "apply_op (Resume_print now now' mute_alert) s = resume_print now now' mute_alert s"
| "apply_op Pause_print s = pause_print s"
| "apply_op Pause_print_on_failure s = pause_print_on_failure s"
| "apply_op (Cancel_print now) s = cancel_print now s"
| "apply_op (Set_alert now) s = set_alert now s"
| "apply_op (Clear_alert now) s = clear_alert now s"

definition no_print_tracked :: "printer \<Rightarrow> bool" where
  "no_print_tracked p =
     (current_print_filename p = None \<and> current_print_started_at p = None \<and>
      current_print_alerted_at p = None \<and> alert_acknowledged_at p = None)"

inductive reachable :: "printer \<times> db \<Rightarrow> bool" where
  start: "no_print_tracked p \<Longrightarrow> reachable (p, d)"
| step: "reachable s \<Longrightarrow> reachable (apply_op op s)"


text \<open>
  No operation of the source checks whether a print is tracked before it writes. The
  predicate \<open>used_on_print\<close> names the calls that keep to a tracked print: the four
  operations that assign an alert column are called while \<open>current_print_filename\<close> is
  not \<open>NULL\<close>, and \<open>set_current_print\<close> is not given \<open>None\<close> while a print is
  tracked. \<open>reachable_on_print\<close> are the states reached by such calls only.
\<close>

fun used_on_print :: "printer_op \<Rightarrow> printer \<Rightarrow> bool" where
  "used_on_print (Set_current_print now filename) p =
     (filename \<noteq> None \<or> current_print_filename p = None)"
| "used_on_print Unset_current_print p = True"
| "used_on_print Pause_print p = True"
| "used_on_print Pause_print_on_failure p = True"
| "used_on_print op p = (current_print_filename p \<noteq> None)"

inductive reachable_on_print :: "printer \<times> db \<Rightarrow> bool" where
  start_on_print: "no_print_tracked p \<Longrightarrow> reachable_on_print (p, d)"
| step_on_print:
    "reachable_on_print s \<Longrightarrow> used_on_print op (fst s) \<Longrightarrow> reachable_on_print (apply_op op s)"

section \<open>The status property\<close>

text \<open>
  A telemetry snapshot is a dict in insertion order. Its values are the stored strings;
  once coerced, \<open>seconds_left\<close> is an integer.
\<close>

datatype py_error = ValueError | TypeError

datatype field_value = VStr string | VInt int

type_synonym snapshot = "(string \<times> field_value) list"

text \<open>
  Modelled from the spec: \<open>lib.redis.printer_status_get\<close> is not among the sources.
  The StatusCache is keyed by device id and holds a flat mapping of telemetry fields, or
  nothing when no snapshot was written; reading a device with no snapshot is a normal
  outcome, which the caller sees as a mapping with no fields.
\<close>

definition printer_status_get :: "(nat \<rightharpoonup> snapshot) \<Rightarrow> nat \<Rightarrow> snapshot" where
  "printer_status_get cache pid = (case cache pid of None \<Rightarrow> [] | Some m \<Rightarrow> m)"

text \<open>
  Modelled from the spec: \<open>lib.utils.dict_or_none\<close> is not among the sources. The
  reader returns absence as a distinguished no-data result: a mapping with no fields
  becomes \<open>None\<close>, any other mapping is returned as it is.
\<close>

definition dict_or_none :: "snapshot \<Rightarrow> snapshot option" where
  "dict_or_none dict_value = (if dict_value = [] then None else Some dict_value)"

text \<open>
  \<open>@property def status(self)\<close>. Python's built-in \<open>int\<close> is the parameter \<open>py_int\<close>:
  it gives the integer, or the exception it raises. The exception leaves \<open>status\<close>
  uncaught, so it is the result.
\<close>

definition status_property ::
  "(field_value \<Rightarrow> py_error + int) \<Rightarrow> (nat \<rightharpoonup> snapshot) \<Rightarrow> printer \<Rightarrow> py_error + snapshot option" where
  "status_property py_int cache self =
     (let status_data = printer_status_get cache (printer_id self) in
      case map_of status_data ''seconds_left'' of
        None \<Rightarrow> Inr (dict_or_none status_data)
      | Some v \<Rightarrow>
          (case py_int v of
             Inl e \<Rightarrow> Inl e
           | Inr n \<Rightarrow> Inr (dict_or_none (AList.update ''seconds_left'' (VInt n) status_data))))"

section \<open>Concrete printers and databases\<close>

definition example_printer :: printer where
  "example_printer =
     \<lparr>printer_id = 1, name = ''mk3'', auth_token = ''0123456789abcdef'', user = 7,
      current_print_filename = None, current_print_started_at = None,
      current_print_alerted_at = None, alert_acknowledged_at = None,
      action_on_failure = ''PAUSE'', tools_off_on_pause = True, bed_off_on_pause = False\<rparr>"

definition printing_printer :: printer where
  "printing_printer =
     example_printer\<lparr>current_print_filename := Some ''a.gcode'',
                     current_print_started_at := Some 3\<rparr>"

text \<open>One \<open>PENDING\<close> command, a pause, of printer 1.\<close>

definition example_db :: db where
  "example_db =
     \<lparr>printer_rows = [1 \<mapsto> example_printer],
      commands = [new_command 1 1 ''pause'' []],
      next_command_id = 2, printer_saves = 0\<rparr>"

text \<open>
  A \<open>SENT\<close> command of printer 1, a \<open>PENDING\<close> command of printer 2 and a
  \<open>PENDING\<close> command of printer 1.
\<close>

definition busy_db :: db where
  "busy_db =
     \<lparr>printer_rows = [1 \<mapsto> example_printer],
      commands = [(new_command 1 1 ''resume'' [])\<lparr>status := SENT\<rparr>,
                  new_command 2 2 ''pause'' [],
                  new_command 3 1 ''pause'' []],
      next_command_id = 4, printer_saves = 0\<rparr>"

definition example_cache :: "nat \<rightharpoonup> snapshot" where
  "example_cache =
     [1 \<mapsto> [(''state'', VStr ''Printing''), (''seconds_left'', VStr ''42'')],
      2 \<mapsto> [(''seconds_left'', VStr ''soon'')]]"

text \<open>A stand-in for \<open>int\<close> on the two stored values of \<open>example_cache\<close>.\<close>

definition example_int :: "field_value \<Rightarrow> py_error + int" where
  "example_int v = (if v = VStr ''42'' then Inr 42 else Inl ValueError)"


section \<open>Facts about the command queue\<close>

lemma length_abort_pending [simp]: "length (abort_pending pid cs) = length cs"
  by (simp add: abort_pending_def)

lemma pending_of_abort_pending [simp]: "pending_of pid (abort_pending pid cs) = []"
  by (induction cs) (simp_all add: pending_of_def abort_pending_def)

lemma pending_of_append [simp]: "pending_of pid (xs @ ys) = pending_of pid xs @ pending_of pid ys"
  by (simp add: pending_of_def)

lemma pending_of_new_command [simp]:
  "pending_of pid [new_command cid pid cmd args] = [new_command cid pid cmd args]"
  by (simp add: pending_of_def new_command_def)

lemma status_new_command [simp]: "status (new_command cid pid cmd args) = PENDING"
  by (simp add: new_command_def)

lemma printer_new_command [simp]: "printer (new_command cid pid cmd args) = pid"
  by (simp add: new_command_def)

lemma pending_of_Nil [simp]: "pending_of pid [] = []"
  by (simp add: pending_of_def)

lemma pending_of_Cons_new [simp]:
  "pending_of pid (new_command cid pid cmd args # cs)
     = new_command cid pid cmd args # pending_of pid cs"
  by (simp add: pending_of_def)

lemma printer_id_example [simp]: "printer_id example_printer = 1"
  by (simp add: example_printer_def)

lemma abort_pending_nth:
  "i < length cs \<Longrightarrow>
   abort_pending pid cs ! i =
     (if printer (cs ! i) = pid \<and> status (cs ! i) = PENDING
      then (cs ! i)\<lparr>status := ABORTED\<rparr> else cs ! i)"
  by (simp add: abort_pending_def)

lemma commands_queue_abort:
  "commands (queue_octoprint_command self cmd args True d) =
     abort_pending (printer_id self) (commands d)
       @ [new_command (next_command_id d) (printer_id self) cmd args]"
  by (simp add: queue_octoprint_command_def create_command_def)

lemma commands_queue_keep:
  "commands (queue_octoprint_command self cmd args False d) =
     commands d @ [new_command (next_command_id d) (printer_id self) cmd args]"
  by (simp add: queue_octoprint_command_def create_command_def)

section \<open>Aborting enqueue leaves one pending command\<close>

text \<open>
  Claim C1. After \<open>queue_octoprint_command\<close> with \<open>abort_existing=True\<close>, the commands
  of that printer with status \<open>PENDING\<close> are exactly the one newly created command
  (so there is at most one); the table grows by that one row, which is \<open>PENDING\<close>; and
  every earlier command of that printer that was \<open>PENDING\<close> is \<open>ABORTED\<close>.
\<close>

theorem queue_abort_existing_single_pending:
  "pending_of (printer_id self) (commands (queue_octoprint_command self cmd args True d))
     = [new_command (next_command_id d) (printer_id self) cmd args]
   \<and> length (pending_of (printer_id self)
               (commands (queue_octoprint_command self cmd args True d))) \<le> 1
   \<and> length (commands (queue_octoprint_command self cmd args True d))
       = Suc (length (commands d))
   \<and> status (last (commands (queue_octoprint_command self cmd args True d))) = PENDING
   \<and> (\<forall>i < length (commands d).
        printer (commands d ! i) = printer_id self \<and> status (commands d ! i) = PENDING
        \<longrightarrow> status (commands (queue_octoprint_command self cmd args True d) ! i) = ABORTED
            \<and> command_id (commands (queue_octoprint_command self cmd args True d) ! i)
                = command_id (commands d ! i))"
  by (simp add: commands_queue_abort nth_append abort_pending_nth)

theorem queue_abort_existing_single_pending_witness:
  "pending_of 1 (commands (queue_octoprint_command example_printer ''pause'' [] True busy_db))
     = [new_command 4 1 ''pause'' []]
   \<and> status (commands busy_db ! 2) = PENDING
   \<and> status (commands (queue_octoprint_command example_printer ''pause'' [] True busy_db) ! 2)
       = ABORTED"
proof -
  have pid: "printer_id example_printer = 1"
    by (simp add: example_printer_def)
  have pre: "2 < length (commands busy_db) \<and> printer (commands busy_db ! 2) = 1
             \<and> status (commands busy_db ! 2) = PENDING \<and> next_command_id busy_db = 4"
    by (simp add: busy_db_def)
  from queue_abort_existing_single_pending [of example_printer "''pause''" "[]" busy_db] pre
  show ?thesis
    by (simp add: pid)
qed

section \<open>The four print and alert columns\<close>






lemma reachable_on_print_reachable: "reachable_on_print s \<Longrightarrow> reachable s"
  by (induction rule: reachable_on_print.induct) (auto intro: reachable.intros)








section \<open>Resuming a print\<close>

text \<open>
  Claim C3, as stated, fails. \<open>resume_print\<close> enqueues \<open>restore_temps\<close> with the
  default \<open>abort_existing=True\<close>: a command of the printer that was \<open>PENDING\<close> before
  the call is \<open>ABORTED\<close> after it, so the table is not the old one with two rows added.
\<close>

theorem resume_print_stacking_counterexample:
  "status (commands example_db ! 0) = PENDING
   \<and> \<not> (commands (snd (resume_print 10 11 False (example_printer, example_db)))
          = commands example_db
            @ [new_command 2 1 ''restore_temps'' [], new_command 3 1 ''resume'' []])
   \<and> status (commands (snd (resume_print 10 11 False (example_printer, example_db))) ! 0)
       = ABORTED"
  by (simp add: resume_print_def clear_alert_def save_def queue_octoprint_command_def
        create_command_def abort_pending_def example_db_def Let_def new_command_def)

text \<open>
  Claim C3, amended. \<open>resume_print\<close> with \<open>mute_alert=False\<close> sets
  \<open>alert_acknowledged_at\<close> to the clock value read in \<open>clear_alert\<close> and
  \<open>current_print_alerted_at\<close> to \<open>NULL\<close>, and creates exactly two commands, first
  \<open>restore_temps\<close> and then \<open>resume\<close>. The first is enqueued with
  \<open>abort_existing=True\<close>, so every earlier \<open>PENDING\<close> command of the printer becomes
  \<open>ABORTED\<close>; the second with \<open>abort_existing=False\<close>. Afterwards the \<open>PENDING\<close>
  commands of the printer are exactly these two, in that order.
\<close>

theorem resume_print_unmuted:
  "alert_acknowledged_at (fst (resume_print now now' False (p, d))) = Some now'
   \<and> current_print_alerted_at (fst (resume_print now now' False (p, d))) = None
   \<and> commands (snd (resume_print now now' False (p, d)))
       = abort_pending (printer_id p) (commands d)
         @ [new_command (next_command_id d) (printer_id p) ''restore_temps'' [],
            new_command (Suc (next_command_id d)) (printer_id p) ''resume'' []]
   \<and> pending_of (printer_id p) (commands (snd (resume_print now now' False (p, d))))
       = [new_command (next_command_id d) (printer_id p) ''restore_temps'' [],
          new_command (Suc (next_command_id d)) (printer_id p) ''resume'' []]
   \<and> snd (resume_print now now' False (p, d))
       = queue_octoprint_command (fst (resume_print now now' False (p, d))) ''resume'' [] False
           (queue_octoprint_command (fst (resume_print now now' False (p, d))) ''restore_temps'' [] True
              (snd (clear_alert now' (p\<lparr>alert_acknowledged_at := Some now\<rparr>,
                                      save (p\<lparr>alert_acknowledged_at := Some now\<rparr>) d))))"
  by (simp add: resume_print_def clear_alert_def save_def queue_octoprint_command_def
        create_command_def Let_def)

section \<open>Starting the print that is already tracked\<close>

text \<open>
  Claim C4. When the printer's \<open>current_print_filename\<close> equals the argument,
  \<open>set_current_print\<close> returns the printer and the database as they were: no column
  changes, no \<open>save()\<close> is executed and no command is created.
\<close>

theorem set_current_print_same_filename:
  "current_print_filename p = f \<Longrightarrow> set_current_print now f (p, d) = (p, d)"
  by (simp add: set_current_print_def)

theorem set_current_print_same_filename_witness:
  "current_print_filename printing_printer = Some ''a.gcode''
   \<and> set_current_print 9 (Some ''a.gcode'') (printing_printer, example_db)
       = (printing_printer, example_db)"
proof -
  have f: "current_print_filename printing_printer = Some ''a.gcode''"
    by (simp add: printing_printer_def)
  from f set_current_print_same_filename [OF f, of 9 example_db] show ?thesis
    by simp
qed

section \<open>Pausing on failure\<close>

text \<open>
  Claim C5. \<open>pause_print_on_failure\<close> aborts the \<open>PENDING\<close> commands of the printer
  and creates \<open>pause\<close>; with both heater policies on it then creates \<open>set_temps\<close> for
  the tools and \<open>set_temps\<close> for the bed, neither of which aborts anything (three new
  rows, all \<open>PENDING\<close>); with both policies off it creates only \<open>pause\<close>. The printer
  object is unchanged.
\<close>

theorem pause_print_on_failure_commands:
  "(tools_off_on_pause p \<and> bed_off_on_pause p \<longrightarrow>
      commands (snd (pause_print_on_failure (p, d)))
        = abort_pending (printer_id p) (commands d)
          @ [new_command (next_command_id d) (printer_id p) ''pause'' [],
             new_command (Suc (next_command_id d)) (printer_id p) ''set_temps''
               [(''heater'', JStr ''tools''), (''target'', JInt 0), (''save'', JBool True)],
             new_command (Suc (Suc (next_command_id d))) (printer_id p) ''set_temps''
               [(''heater'', JStr ''bed''), (''target'', JInt 0), (''save'', JBool True)]])
   \<and> (\<not> tools_off_on_pause p \<and> \<not> bed_off_on_pause p \<longrightarrow>
      commands (snd (pause_print_on_failure (p, d)))
        = abort_pending (printer_id p) (commands d)
          @ [new_command (next_command_id d) (printer_id p) ''pause'' []])
   \<and> fst (pause_print_on_failure (p, d)) = p"
  by (simp add: pause_print_on_failure_def queue_octoprint_command_def create_command_def Let_def)

theorem pause_print_on_failure_commands_witness:
  "map status (commands (snd (pause_print_on_failure
       (example_printer\<lparr>bed_off_on_pause := True\<rparr>, example_db))))
     = [ABORTED, PENDING, PENDING, PENDING]
   \<and> map status (commands (snd (pause_print_on_failure
       (example_printer\<lparr>tools_off_on_pause := False\<rparr>, example_db))))
     = [ABORTED, PENDING]"
proof -
  have both: "tools_off_on_pause (example_printer\<lparr>bed_off_on_pause := True\<rparr>)
              \<and> bed_off_on_pause (example_printer\<lparr>bed_off_on_pause := True\<rparr>)"
    by (simp add: example_printer_def)
  have neither: "\<not> tools_off_on_pause (example_printer\<lparr>tools_off_on_pause := False\<rparr>)
                 \<and> \<not> bed_off_on_pause (example_printer\<lparr>tools_off_on_pause := False\<rparr>)"
    by (simp add: example_printer_def)
  have cs: "map status (abort_pending (Suc 0) (commands example_db)) = [ABORTED]"
    by (simp add: example_db_def abort_pending_def)
  from pause_print_on_failure_commands [of "example_printer\<lparr>bed_off_on_pause := True\<rparr>" example_db] both
  have a: "map status (commands (snd (pause_print_on_failure
       (example_printer\<lparr>bed_off_on_pause := True\<rparr>, example_db))))
     = [ABORTED, PENDING, PENDING, PENDING]"
    by (simp add: cs)
  from pause_print_on_failure_commands [of "example_printer\<lparr>tools_off_on_pause := False\<rparr>" example_db] neither
  have b: "map status (commands (snd (pause_print_on_failure
       (example_printer\<lparr>tools_off_on_pause := False\<rparr>, example_db))))
     = [ABORTED, PENDING]"
    by (simp add: cs)
  from a b show ?thesis by simp
qed

section \<open>Cancelling over a pending pause\<close>

lemma abort_pending_single:
  assumes "pending_of pid cs = [c]"
  shows "abort_pending pid cs = map (\<lambda>x. if x = c then c\<lparr>status := ABORTED\<rparr> else x) cs"
proof -
  have mem: "\<And>x. x \<in> set cs \<Longrightarrow> (printer x = pid \<and> status x = PENDING) = (x = c)"
  proof -
    fix x assume x: "x \<in> set cs"
    have "set (pending_of pid cs) = {c}" using assms by simp
    then have "{y \<in> set cs. printer y = pid \<and> status y = PENDING} = {c}"
      by (simp add: pending_of_def)
    with x show "(printer x = pid \<and> status x = PENDING) = (x = c)" by blast
  qed
  show ?thesis
    unfolding abort_pending_def
    by (rule map_cong) (auto simp: mem)
qed

lemma pending_of_single_mem:
  "pending_of pid cs = [c] \<Longrightarrow> c \<in> set cs \<and> printer c = pid \<and> status c = PENDING"
proof -
  assume "pending_of pid cs = [c]"
  then have "c \<in> set (pending_of pid cs)" by simp
  then show ?thesis by (simp add: pending_of_def)
qed

text \<open>
  Claim C6. When the only \<open>PENDING\<close> command of the printer is a pause, \<open>cancel_print\<close>
  turns that row into an \<open>ABORTED\<close> one (the \<open>PENDING\<close> row is gone), creates a
  \<open>cancel\<close> command, which is then the only \<open>PENDING\<close> command of the printer, and
  sets \<open>alert_acknowledged_at\<close> to the clock value, which is saved.
\<close>

theorem cancel_print_supersedes_pause:
  assumes "pending_of (printer_id p) (commands d) = [c]"
    and "command c = JObj [(''cmd'', JStr ''pause''), (''args'', JObj args)]"
  shows "commands (snd (cancel_print now (p, d)))
           = map (\<lambda>x. if x = c then c\<lparr>status := ABORTED\<rparr> else x) (commands d)
             @ [new_command (next_command_id d) (printer_id p) ''cancel'' []]
       \<and> c\<lparr>status := ABORTED\<rparr> \<in> set (commands (snd (cancel_print now (p, d))))
       \<and> c \<notin> set (commands (snd (cancel_print now (p, d))))
       \<and> pending_of (printer_id p) (commands (snd (cancel_print now (p, d))))
           = [new_command (next_command_id d) (printer_id p) ''cancel'' []]
       \<and> alert_acknowledged_at (fst (cancel_print now (p, d))) = Some now
       \<and> printer_rows (snd (cancel_print now (p, d))) (printer_id p)
           = Some (fst (cancel_print now (p, d)))"
proof -
  have cs: "commands (snd (cancel_print now (p, d)))
              = abort_pending (printer_id p) (commands d)
                @ [new_command (next_command_id d) (printer_id p) ''cancel'' []]"
    by (simp add: cancel_print_def save_def queue_octoprint_command_def create_command_def Let_def)
  have ab: "abort_pending (printer_id p) (commands d)
              = map (\<lambda>x. if x = c then c\<lparr>status := ABORTED\<rparr> else x) (commands d)"
    using assms(1) by (rule abort_pending_single)
  have c: "c \<in> set (commands d)" "status c = PENDING"
    using pending_of_single_mem [OF assms(1)] by simp_all
  have ne: "c\<lparr>status := ABORTED\<rparr> \<noteq> c"
  proof
    assume "c\<lparr>status := ABORTED\<rparr> = c"
    then have "status (c\<lparr>status := ABORTED\<rparr>) = status c" by simp
    with c(2) show False by simp
  qed
  have new: "new_command (next_command_id d) (printer_id p) ''cancel'' [] \<noteq> c"
    using assms(2) by (auto simp: new_command_def)
  have 1: "c\<lparr>status := ABORTED\<rparr> \<in> set (commands (snd (cancel_print now (p, d))))"
    using c(1) by (auto simp: cs ab)
  have 2: "c \<notin> set (commands (snd (cancel_print now (p, d))))"
    using ne new by (auto simp: cs ab)
  have 3: "pending_of (printer_id p) (commands (snd (cancel_print now (p, d))))
           = [new_command (next_command_id d) (printer_id p) ''cancel'' []]"
    by (simp add: cs)
  have 4: "alert_acknowledged_at (fst (cancel_print now (p, d))) = Some now"
    by (simp add: cancel_print_def Let_def)
  have 5: "printer_rows (snd (cancel_print now (p, d))) (printer_id p)
           = Some (fst (cancel_print now (p, d)))"
    by (simp add: cancel_print_def save_def queue_octoprint_command_def create_command_def Let_def)
  from cs ab 1 2 3 4 5 show ?thesis by simp
qed

theorem cancel_print_supersedes_pause_witness:
  "pending_of 1 (commands example_db) = [new_command 1 1 ''pause'' []]
   \<and> map status (commands (snd (cancel_print 12 (example_printer, example_db))))
       = [ABORTED, PENDING]
   \<and> pending_of 1 (commands (snd (cancel_print 12 (example_printer, example_db))))
       = [new_command 2 1 ''cancel'' []]
   \<and> alert_acknowledged_at (fst (cancel_print 12 (example_printer, example_db))) = Some 12"
proof -
  have h1: "pending_of (printer_id example_printer) (commands example_db)
              = [new_command 1 1 ''pause'' []]"
    by (simp add: example_db_def)
  have h2: "command (new_command 1 1 ''pause'' []) = JObj [(''cmd'', JStr ''pause''), (''args'', JObj [])]"
    by (simp add: new_command_def)
  have n: "next_command_id example_db = 2" "commands example_db = [new_command 1 1 ''pause'' []]"
    by (simp_all add: example_db_def)
  note t = cancel_print_supersedes_pause [OF h1 h2, of 12]
  from t have "commands (snd (cancel_print 12 (example_printer, example_db)))
           = map (\<lambda>x. if x = new_command 1 1 ''pause'' []
                       then (new_command 1 1 ''pause'' [])\<lparr>status := ABORTED\<rparr> else x)
               (commands example_db)
             @ [new_command (next_command_id example_db) (printer_id example_printer) ''cancel'' []]"
    by (rule conjunct1)
  then have a: "map status (commands (snd (cancel_print 12 (example_printer, example_db))))
       = [ABORTED, PENDING]"
    by (simp add: n)
  from t have "pending_of (printer_id example_printer)
                 (commands (snd (cancel_print 12 (example_printer, example_db))))
           = [new_command (next_command_id example_db) (printer_id example_printer) ''cancel'' []]"
    by blast
  then have b: "pending_of 1 (commands (snd (cancel_print 12 (example_printer, example_db))))
       = [new_command 2 1 ''cancel'' []]"
    by (simp add: n)
  from t have c: "alert_acknowledged_at (fst (cancel_print 12 (example_printer, example_db))) = Some 12"
    by blast
  from h1 have h: "pending_of 1 (commands example_db) = [new_command 1 1 ''pause'' []]"
    by simp
  from h a b c show ?thesis by blast
qed

section \<open>Raising an alert\<close>

text \<open>
  Claim C7. In every state, also with an alert already raised or acknowledged,
  \<open>set_alert\<close> sets \<open>current_print_alerted_at\<close> to the clock value and
  \<open>alert_acknowledged_at\<close> to \<open>NULL\<close>, changes no other column, saves the row once
  and creates no command.
\<close>

theorem set_alert_effect:
  "fst (set_alert now (p, d))
     = p\<lparr>current_print_alerted_at := Some now, alert_acknowledged_at := None\<rparr>
   \<and> current_print_alerted_at (fst (set_alert now (p, d))) = Some now
   \<and> alert_acknowledged_at (fst (set_alert now (p, d))) = None
   \<and> printer_rows (snd (set_alert now (p, d))) (printer_id p) = Some (fst (set_alert now (p, d)))
   \<and> printer_saves (snd (set_alert now (p, d))) = Suc (printer_saves d)
   \<and> commands (snd (set_alert now (p, d))) = commands d"
  by (simp add: set_alert_def save_def Let_def)

section \<open>Reading the status\<close>

lemma update_not_Nil: "AList.update k v al \<noteq> []"
  by (cases al) auto

lemma dict_or_none_update [simp]:
  "dict_or_none (AList.update k v al) = Some (AList.update k v al)"
  by (simp add: dict_or_none_def update_not_Nil)

text \<open>
  Claim C8. With no snapshot stored for the printer, \<open>status\<close> returns \<open>None\<close> and
  raises nothing. With a snapshot that has a \<open>seconds_left\<close> field that \<open>int\<close>
  accepts, the snapshot is returned with that field replaced by the integer. When
  \<open>int\<close> raises on the field, the exception is the result, which differs from the
  result for an absent snapshot.
\<close>

theorem status_absent_or_coerced:
  "(cache (printer_id p) = None \<longrightarrow> status_property py_int cache p = Inr None)
   \<and> (cache (printer_id p) = Some m \<and> map_of m ''seconds_left'' = Some v \<and> py_int v = Inr n \<longrightarrow>
        status_property py_int cache p = Inr (Some (AList.update ''seconds_left'' (VInt n) m))
        \<and> map_of (AList.update ''seconds_left'' (VInt n) m) ''seconds_left'' = Some (VInt n))
   \<and> (cache (printer_id p) = Some m \<and> map_of m ''seconds_left'' = Some v \<and> py_int v = Inl e \<longrightarrow>
        status_property py_int cache p = Inl e
        \<and> status_property py_int cache p \<noteq> Inr None)"
  by (simp add: status_property_def printer_status_get_def dict_or_none_def update_conv')

theorem status_absent_or_coerced_witness:
  "status_property example_int example_cache (example_printer\<lparr>printer_id := 3\<rparr>) = Inr None
   \<and> status_property example_int example_cache example_printer
       = Inr (Some [(''state'', VStr ''Printing''), (''seconds_left'', VInt 42)])
   \<and> status_property example_int example_cache (example_printer\<lparr>printer_id := 2\<rparr>)
       = Inl ValueError"
proof -
  have a: "example_cache (printer_id (example_printer\<lparr>printer_id := 3\<rparr>)) = None"
    by (simp add: example_cache_def)
  have b: "example_cache (printer_id example_printer)
             = Some [(''state'', VStr ''Printing''), (''seconds_left'', VStr ''42'')]
           \<and> map_of [(''state'', VStr ''Printing''), (''seconds_left'', VStr ''42'')] ''seconds_left''
               = Some (VStr ''42'')
           \<and> example_int (VStr ''42'') = Inr 42"
    by (simp add: example_cache_def example_int_def)
  have c: "example_cache (printer_id (example_printer\<lparr>printer_id := 2\<rparr>))
             = Some [(''seconds_left'', VStr ''soon'')]
           \<and> map_of [(''seconds_left'', VStr ''soon'')] ''seconds_left'' = Some (VStr ''soon'')
           \<and> example_int (VStr ''soon'') = Inl ValueError"
    by (simp add: example_cache_def example_int_def)
  from status_absent_or_coerced [where cache = example_cache
         and p = "example_printer\<lparr>printer_id := 3\<rparr>" and py_int = example_int] a
  have 1: "status_property example_int example_cache (example_printer\<lparr>printer_id := 3\<rparr>) = Inr None"
    by blast
  from status_absent_or_coerced [where cache = example_cache and p = example_printer
         and m = "[(''state'', VStr ''Printing''), (''seconds_left'', VStr ''42'')]"
         and v = "VStr ''42''" and py_int = example_int and n = 42] b
  have "status_property example_int example_cache example_printer
       = Inr (Some (AList.update ''seconds_left'' (VInt 42)
                      [(''state'', VStr ''Printing''), (''seconds_left'', VStr ''42'')]))"
    by blast
  then have 2: "status_property example_int example_cache example_printer
       = Inr (Some [(''state'', VStr ''Printing''), (''seconds_left'', VInt 42)])"
    by simp
  from status_absent_or_coerced [where cache = example_cache
         and p = "example_printer\<lparr>printer_id := 2\<rparr>"
         and m = "[(''seconds_left'', VStr ''soon'')]"
         and v = "VStr ''soon''" and py_int = example_int and e = ValueError] c
  have 3: "status_property example_int example_cache (example_printer\<lparr>printer_id := 2\<rparr>)
       = Inl ValueError"
    by blast
  from 1 2 3 show ?thesis by blast
qed

section \<open>What enqueueing leaves alone\<close>

text \<open>
  Claim C9. \<open>queue_octoprint_command\<close>, with either value of \<open>abort_existing\<close>,
  leaves every existing row that is \<open>SENT\<close> or \<open>ABORTED\<close>, and every row of another
  printer, as it was. With \<open>abort_existing=False\<close> the existing rows are all unchanged:
  the table is the old one followed by the new row. The table always grows by one row,
  and no printer row is written.
\<close>

theorem queue_frame:
  "(\<forall>i < length (commands d).
      status (commands d ! i) = SENT \<or> status (commands d ! i) = ABORTED
        \<or> printer (commands d ! i) \<noteq> printer_id self
      \<longrightarrow> commands (queue_octoprint_command self cmd args abort_existing d) ! i = commands d ! i)
   \<and> take (length (commands d)) (commands (queue_octoprint_command self cmd args False d))
       = commands d
   \<and> length (commands (queue_octoprint_command self cmd args abort_existing d))
       = Suc (length (commands d))
   \<and> printer_rows (queue_octoprint_command self cmd args abort_existing d) = printer_rows d"
  by (cases abort_existing)
     (auto simp: commands_queue_abort commands_queue_keep nth_append abort_pending_nth
        queue_octoprint_command_def create_command_def)

theorem queue_frame_witness:
  "map status (commands busy_db) = [SENT, PENDING, PENDING]
   \<and> commands (queue_octoprint_command example_printer ''cancel'' [] True busy_db) ! 0
       = commands busy_db ! 0
   \<and> commands (queue_octoprint_command example_printer ''cancel'' [] True busy_db) ! 1
       = commands busy_db ! 1"
proof -
  have pre: "map status (commands busy_db) = [SENT, PENDING, PENDING]"
            "0 < length (commands busy_db)" "1 < length (commands busy_db)"
            "status (commands busy_db ! 0) = SENT"
            "printer (commands busy_db ! 1) \<noteq> printer_id example_printer"
    by (simp_all add: busy_db_def)
  from queue_frame [of busy_db example_printer "''cancel''" "[]" True] pre
  show ?thesis by blast
qed

section \<open>A null filename is not a stop\<close>

text \<open>
  Claim C10. On a printer with a filename, \<open>set_current_print(None)\<close> sets the filename
  to \<open>NULL\<close> and the start time to the clock value (non-null), resets both alert
  columns and saves. On a printer whose filename is \<open>NULL\<close>, \<open>unset_current_print\<close>
  changes no column and executes no \<open>save()\<close>.
\<close>

theorem set_current_print_null_is_not_stop:
  "(current_print_filename p \<noteq> None \<longrightarrow>
      fst (set_current_print now None (p, d))
        = p\<lparr>current_print_filename := None, current_print_started_at := Some now,
            current_print_alerted_at := None, alert_acknowledged_at := None\<rparr>
      \<and> current_print_filename (fst (set_current_print now None (p, d))) = None
      \<and> current_print_started_at (fst (set_current_print now None (p, d))) = Some now
      \<and> snd (set_current_print now None (p, d)) = save (fst (set_current_print now None (p, d))) d)
   \<and> (current_print_filename p = None \<longrightarrow> unset_current_print (p, d) = (p, d))"
  by (auto simp: set_current_print_def unset_current_print_def Let_def)

theorem set_current_print_null_is_not_stop_witness:
  "current_print_filename printing_printer \<noteq> None
   \<and> current_print_filename (fst (set_current_print 8 None (printing_printer, example_db))) = None
   \<and> current_print_started_at (fst (set_current_print 8 None (printing_printer, example_db))) = Some 8
   \<and> current_print_filename example_printer = None
   \<and> unset_current_print (example_printer, example_db) = (example_printer, example_db)"
proof -
  have a: "current_print_filename printing_printer \<noteq> None"
    by (simp add: printing_printer_def)
  have b: "current_print_filename example_printer = None"
    by (simp add: example_printer_def)
  from set_current_print_null_is_not_stop [of printing_printer 8 example_db] a
  have 1: "current_print_filename (fst (set_current_print 8 None (printing_printer, example_db))) = None
     \<and> current_print_started_at (fst (set_current_print 8 None (printing_printer, example_db))) = Some 8"
    by blast
  from set_current_print_null_is_not_stop [of example_printer 8 example_db] b
  have 2: "unset_current_print (example_printer, example_db) = (example_printer, example_db)"
    by blast
  from a b 1 2 show ?thesis by blast
qed

end
